theory Spec2Isabelle
  imports Complex_Main
begin

section \<open>JavaScript numbers\<close>

text \<open>
  A JavaScript number is an IEEE-754 double: NaN, one of the two infinities, or a finite
  value. The model keeps these four kinds apart, because the program tests for them
  (\<^verbatim>\<open>Number.isFinite\<close>) and because arithmetic on them follows its own rules
  (\<^verbatim>\<open>Infinity - Infinity\<close>, \<^verbatim>\<open>0 / 0\<close>, \<^verbatim>\<open>Infinity * 0\<close> are NaN; every comparison
  with NaN is false).

  A finite value is a real number. An operation on finite values computes the exact real
  result. The result overflows to an infinity when its magnitude exceeds the largest
  double, \<open>MAX_VALUE\<close>. A product, a quotient or a power underflows to 0 when its
  magnitude is at most half the smallest positive double, \<open>MIN_VALUE\<close>: rounding to
  nearest gives 0 there and a non-zero double above it. A sum or a difference of doubles
  does not underflow, since it is exact when it is that small. What the model leaves out
  is the rounding of a result within the range to the nearest double, and the sign of
  zero: a zero divisor is treated as \<open>+0\<close>.
\<close>

datatype jsnum = NaN | NInf | Fin real | PInf

definition MAX_VALUE :: real where
  "MAX_VALUE = 2 ^ 1024 - 2 ^ 971"

definition overflow :: "real \<Rightarrow> jsnum" where
  "overflow r = (if r > MAX_VALUE then PInf else if r < - MAX_VALUE then NInf else Fin r)"

definition MIN_VALUE :: real where
  "MIN_VALUE = 1 / 2 ^ 1074"

definition fit :: "real \<Rightarrow> jsnum" where
  "fit r = (if \<bar>r\<bar> \<le> MIN_VALUE / 2 then Fin 0 else overflow r)"

text \<open>\<^verbatim>\<open>Number.isFinite\<close>.\<close>

fun isFinite :: "jsnum \<Rightarrow> bool" where
  "isFinite (Fin r) = True"
| "isFinite _ = False"

text \<open>A finite value of the model is a double only when it lies in the double range.\<close>

fun inRange :: "jsnum \<Rightarrow> bool" where
  "inRange (Fin r) = (\<bar>r\<bar> \<le> MAX_VALUE)"
| "inRange _ = True"

text \<open>The operators \<^verbatim>\<open>+\<close>, \<^verbatim>\<open>-\<close>, \<^verbatim>\<open>*\<close> and \<^verbatim>\<open>/\<close> on numbers.\<close>

fun jadd :: "jsnum \<Rightarrow> jsnum \<Rightarrow> jsnum" where
  "jadd (Fin a) (Fin b) = overflow (a + b)"
| "jadd NaN _ = NaN"
| "jadd _ NaN = NaN"
| "jadd PInf NInf = NaN"
| "jadd NInf PInf = NaN"
| "jadd PInf _ = PInf"
| "jadd _ PInf = PInf"
| "jadd NInf _ = NInf"
| "jadd _ NInf = NInf"

fun jsub :: "jsnum \<Rightarrow> jsnum \<Rightarrow> jsnum" where
  "jsub (Fin a) (Fin b) = overflow (a - b)"
| "jsub NaN _ = NaN"
| "jsub _ NaN = NaN"
| "jsub PInf PInf = NaN"
| "jsub NInf NInf = NaN"
| "jsub PInf _ = PInf"
| "jsub _ PInf = NInf"
| "jsub NInf _ = NInf"
| "jsub _ NInf = PInf"

fun jmul :: "jsnum \<Rightarrow> jsnum \<Rightarrow> jsnum" where
  "jmul (Fin a) (Fin b) = fit (a * b)"
| "jmul NaN _ = NaN"
| "jmul _ NaN = NaN"
| "jmul (Fin a) PInf = (if a = 0 then NaN else if a > 0 then PInf else NInf)"
| "jmul (Fin a) NInf = (if a = 0 then NaN else if a > 0 then NInf else PInf)"
| "jmul PInf (Fin b) = (if b = 0 then NaN else if b > 0 then PInf else NInf)"
| "jmul NInf (Fin b) = (if b = 0 then NaN else if b > 0 then NInf else PInf)"
| "jmul PInf PInf = PInf"
| "jmul NInf NInf = PInf"
| "jmul PInf NInf = NInf"
| "jmul NInf PInf = NInf"

fun jdiv :: "jsnum \<Rightarrow> jsnum \<Rightarrow> jsnum" where
  "jdiv (Fin a) (Fin b) =
     (if b = 0 then (if a = 0 then NaN else if a > 0 then PInf else NInf)
      else fit (a / b))"
| "jdiv NaN _ = NaN"
| "jdiv _ NaN = NaN"
| "jdiv (Fin a) PInf = Fin 0"
| "jdiv (Fin a) NInf = Fin 0"
| "jdiv PInf (Fin b) = (if b \<ge> 0 then PInf else NInf)"
| "jdiv NInf (Fin b) = (if b \<ge> 0 then NInf else PInf)"
| "jdiv PInf PInf = NaN"
| "jdiv NInf NInf = NaN"
| "jdiv PInf NInf = NaN"
| "jdiv NInf PInf = NaN"

text \<open>The comparisons \<^verbatim>\<open><\<close> and \<^verbatim>\<open><=\<close>; \<^verbatim>\<open>a > b\<close> is \<open>jlt b a\<close> and \<^verbatim>\<open>a >= b\<close> is \<open>jle b a\<close>.\<close>

fun jlt :: "jsnum \<Rightarrow> jsnum \<Rightarrow> bool" where
  "jlt (Fin a) (Fin b) = (a < b)"
| "jlt NaN _ = False"
| "jlt _ NaN = False"
| "jlt _ NInf = False"
| "jlt PInf _ = False"
| "jlt NInf _ = True"
| "jlt _ PInf = True"

fun jle :: "jsnum \<Rightarrow> jsnum \<Rightarrow> bool" where
  "jle (Fin a) (Fin b) = (a \<le> b)"
| "jle NaN _ = False"
| "jle _ NaN = False"
| "jle NInf _ = True"
| "jle _ PInf = True"
| "jle _ NInf = False"
| "jle PInf _ = False"

text \<open>The functions of \<^verbatim>\<open>Math\<close> that the program calls.\<close>

definition Math_min :: "jsnum \<Rightarrow> jsnum \<Rightarrow> jsnum" where
  "Math_min a b = (if a = NaN \<or> b = NaN then NaN else if jle a b then a else b)"

definition Math_max :: "jsnum \<Rightarrow> jsnum \<Rightarrow> jsnum" where
  "Math_max a b = (if a = NaN \<or> b = NaN then NaN else if jle a b then b else a)"

fun Math_sqrt :: "jsnum \<Rightarrow> jsnum" where
  "Math_sqrt (Fin r) = (if r < 0 then NaN else Fin (sqrt r))"
| "Math_sqrt PInf = PInf"
| "Math_sqrt _ = NaN"

fun Math_cos :: "jsnum \<Rightarrow> jsnum" where
  "Math_cos (Fin r) = Fin (cos r)"
| "Math_cos _ = NaN"

fun Math_sin :: "jsnum \<Rightarrow> jsnum" where
  "Math_sin (Fin r) = Fin (sin r)"
| "Math_sin _ = NaN"

definition Math_PI :: jsnum where
  "Math_PI = Fin pi"

definition oddInteger :: "real \<Rightarrow> bool" where
  "oddInteger q = (q \<in> \<int> \<and> odd \<lfloor>q\<rfloor>)"

text \<open>\<^verbatim>\<open>Math.pow(b, e)\<close>, by the cases of the language definition.\<close>

fun Math_pow :: "jsnum \<Rightarrow> jsnum \<Rightarrow> jsnum" where
  "Math_pow b NaN = NaN"
| "Math_pow NaN (Fin q) = (if q = 0 then Fin 1 else NaN)"
| "Math_pow PInf (Fin q) = (if q = 0 then Fin 1 else if q > 0 then PInf else Fin 0)"
| "Math_pow NInf (Fin q) =
     (if q = 0 then Fin 1
      else if q > 0 then (if oddInteger q then NInf else PInf)
      else Fin 0)"
| "Math_pow (Fin p) (Fin q) =
     (if q = 0 then Fin 1
      else if p = 0 then (if q > 0 then Fin 0 else PInf)
      else if p < 0 then
        (if q \<notin> \<int> then NaN
         else fit ((if oddInteger q then - 1 else 1) * ((- p) powr q)))
      else fit (p powr q))"
| "Math_pow NaN PInf = NaN"
| "Math_pow NaN NInf = NaN"
| "Math_pow PInf PInf = PInf"
| "Math_pow NInf PInf = PInf"
| "Math_pow PInf NInf = Fin 0"
| "Math_pow NInf NInf = Fin 0"
| "Math_pow (Fin p) PInf =
     (if p = 0 then Fin 0 else if \<bar>p\<bar> > 1 then PInf else if \<bar>p\<bar> = 1 then NaN else Fin 0)"
| "Math_pow (Fin p) NInf =
     (if p = 0 then PInf else if \<bar>p\<bar> > 1 then Fin 0 else if \<bar>p\<bar> = 1 then NaN else PInf)"

section \<open>Raw records\<close>

text \<open>
  A row is a JavaScript object read from JSON: a mapping from field names to scalar
  values (\<^verbatim>\<open>null\<close>, booleans, numbers and strings). Reading a field that the object
  lacks gives \<^verbatim>\<open>undefined\<close>; the names the program reads are not names that an
  object inherits.
\<close>

datatype jsval = JUndefined | JNull | JBool bool | JNum jsnum | JStr string

type_synonym row = "string \<rightharpoonup> jsval"

definition field :: "row \<Rightarrow> string \<Rightarrow> jsval" where
  "field r key = (case r key of None \<Rightarrow> JUndefined | Some v \<Rightarrow> v)"

text \<open>The test of the operator \<^verbatim>\<open>??\<close> and of \<^verbatim>\<open>v != null\<close>.\<close>

fun nullish :: "jsval \<Rightarrow> bool" where
  "nullish JUndefined = True"
| "nullish JNull = True"
| "nullish _ = False"

text \<open>The test of the operator \<^verbatim>\<open>||\<close>.\<close>

fun truthy :: "jsval \<Rightarrow> bool" where
  "truthy JUndefined = False"
| "truthy JNull = False"
| "truthy (JBool b) = b"
| "truthy (JNum n) = (n \<noteq> NaN \<and> n \<noteq> Fin 0)"
| "truthy (JStr s) = (s \<noteq> [])"

text \<open>
  \<^verbatim>\<open>String.prototype.toUpperCase\<close> on field names, which are ASCII: the letters
  \<^verbatim>\<open>a\<close> to \<^verbatim>\<open>z\<close> move to \<^verbatim>\<open>A\<close> to \<^verbatim>\<open>Z\<close>.
\<close>

definition toUpperChar :: "char \<Rightarrow> char" where
  "toUpperChar c =
     (let n = (of_char c :: nat) in if 97 \<le> n \<and> n \<le> 122 then char_of (n - 32) else c)"

definition toUpperCase :: "string \<Rightarrow> string" where
  "toUpperCase s = map toUpperChar s"

text \<open>
  \<^verbatim>\<open>Number(v)\<close>. The conversion of a string to a number is the language's own numeric
  literal grammar; it is the parameter \<open>S\<close>.
\<close>

fun Number :: "(string \<Rightarrow> jsnum) \<Rightarrow> jsval \<Rightarrow> jsnum" where
  "Number S JUndefined = NaN"
| "Number S JNull = Fin 0"
| "Number S (JBool b) = (if b then Fin 1 else Fin 0)"
| "Number S (JNum n) = n"
| "Number S (JStr s) = S s"

section \<open>The model: \<^verbatim>\<open>src/simulation/model.ts\<close>\<close>

text \<open>\<^verbatim>\<open>row[key] ?? row[key.toUpperCase()] ?? null\<close>\<close>

definition get :: "row \<Rightarrow> string \<Rightarrow> jsval" where
  "get r key =
     (if \<not> nullish (field r key) then field r key
      else if \<not> nullish (field r (toUpperCase key)) then field r (toUpperCase key)
      else JNull)"

definition num :: "(string \<Rightarrow> jsnum) \<Rightarrow> row \<Rightarrow> string \<Rightarrow> jsnum \<Rightarrow> jsnum" where
  "num S r key fallback =
     (let v = get r key
      in if \<not> nullish v \<and> isFinite (Number S v) then Number S v else fallback)"

record hz =
  inner :: jsnum
  outer :: jsnum

text \<open>The argument \<^verbatim>\<open>number | null\<close> is an option: \<open>None\<close> is \<^verbatim>\<open>null\<close>.\<close>

definition habitableZoneAU :: "jsnum option \<Rightarrow> hz" where
  "habitableZoneAU stLum =
     (case stLum of
        None \<Rightarrow> \<lparr>inner = Fin 0.75, outer = Fin 1.77\<rparr>
      | Some l \<Rightarrow>
          if \<not> isFinite l then \<lparr>inner = Fin 0.75, outer = Fin 1.77\<rparr>
          else
            (let L = Math_pow (Fin 10) l
             in \<lparr>inner = jmul (Fin 0.75) (Math_sqrt L), outer = jmul (Fin 1.77) (Math_sqrt L)\<rparr>))"

definition SUN_RADIUS_AU :: jsnum where
  "SUN_RADIUS_AU = Fin 0.005"

definition MIN_STAR_RADIUS :: jsnum where
  "MIN_STAR_RADIUS = Fin 0.012"

definition MIN_PLANET_RADIUS :: jsnum where
  "MIN_PLANET_RADIUS = Fin 0.008"

record point =
  x :: jsnum
  y :: jsnum
  z :: jsnum

text \<open>
  The two inner functions; \<open>orbitRadius\<close> and \<open>orbitEccentricity\<close> are the constants of
  the enclosing call.
\<close>

definition radiusAtAngle :: "jsnum \<Rightarrow> jsnum \<Rightarrow> jsnum \<Rightarrow> jsnum" where
  "radiusAtAngle orbitRadius orbitEccentricity t =
     jdiv (jmul orbitRadius (jsub (Fin 1) (jmul orbitEccentricity orbitEccentricity)))
          (jadd (Fin 1) (jmul orbitEccentricity (Math_cos t)))"

definition positionAtTime :: "jsnum \<Rightarrow> jsnum \<Rightarrow> jsnum \<Rightarrow> point" where
  "positionAtTime orbitRadius orbitEccentricity t =
     (let r = radiusAtAngle orbitRadius orbitEccentricity t
      in \<lparr>x = jmul r (Math_cos t), y = Fin 0, z = jmul r (Math_sin t)\<rparr>)"

text \<open>The loop \<^verbatim>\<open>for (let i = 0; i <= 64; i++)\<close> that fills the cache.\<close>

function orbitLoop :: "jsnum \<Rightarrow> jsnum \<Rightarrow> nat \<Rightarrow> point list \<Rightarrow> point list" where
  "orbitLoop orbitRadius orbitEccentricity i cache =
     (if i \<le> 64 then
        (let t = jmul (jmul (jdiv (Fin (real i)) (Fin 64)) Math_PI) (Fin 2)
         in orbitLoop orbitRadius orbitEccentricity (Suc i)
              (cache @ [positionAtTime orbitRadius orbitEccentricity t]))
      else cache)"
  by pat_completeness auto
termination
  by (relation "measure (\<lambda>(a, e, i, cache). 65 - i)") auto

datatype hzStatus = Status_in | Status_too_close | Status_too_far

text \<open>
  The object that \<^verbatim>\<open>createSimulationFromRow\<close> returns, together with the two variables
  its methods close over: \<open>time\<close> and \<open>orbitPointsCache\<close>.
\<close>

record SimulationState =
  plName :: jsval
  hostName :: jsval
  orbitAu :: jsnum
  planetRadiusRe :: jsnum
  hzInnerAu :: jsnum
  hzOuterAu :: jsnum
  inHabitableZone :: bool
  habitableZoneStatus :: hzStatus
  orbitalPeriodDays :: jsnum
  starRadius :: jsnum
  orbitRadius :: jsnum
  planetRadius :: jsnum
  hzInner :: jsnum
  hzOuter :: jsnum
  orbitEccentricity :: jsnum
  eccentricityKnown :: bool
  orbitPointsCache :: "point list"
  time :: jsnum

definition createSimulationFromRow :: "(string \<Rightarrow> jsnum) \<Rightarrow> row \<Rightarrow> SimulationState" where
  "createSimulationFromRow S r =
     (let plName = (if truthy (get r ''pl_name'') then get r ''pl_name'' else JStr ''Planet'');
          hostName = (if truthy (get r ''hostname'') then get r ''hostname'' else JStr ''Star'');
          stRad = num S r ''st_rad'' (Fin 1);
          stLum = num S r ''st_lum'' (Fin 0);
          plOrbsmax = num S r ''pl_orbsmax'' (Fin 1);
          plOrbeccenRaw = get r ''pl_orbeccen'';
          eccentricityKnown = (\<not> nullish plOrbeccenRaw \<and> isFinite (Number S plOrbeccenRaw));
          plOrbeccen = num S r ''pl_orbeccen'' (Fin 0);
          plRade = num S r ''pl_rade'' (Fin 1);
          plOrbper = num S r ''pl_orbper'' (Fin 365);
          hzAu = habitableZoneAU (Some stLum);
          inHz = (jle (inner hzAu) plOrbsmax \<and> jle plOrbsmax (outer hzAu));
          habitableZoneStatus =
            (if inHz then Status_in
             else if jlt plOrbsmax (inner hzAu) then Status_too_close else Status_too_far);
          orbitEccentricity = Math_min (Fin 0.99) plOrbeccen;
          orbitRadius = plOrbsmax;
          hzInner = inner hzAu;
          hzOuter = outer hzAu;
          starRadius = Math_max MIN_STAR_RADIUS (jmul stRad SUN_RADIUS_AU);
          planetRadius = Math_max MIN_PLANET_RADIUS (jmul plRade (Fin 0.00004));
          orbitalPeriodDays = (if jlt (Fin 0) plOrbper then plOrbper else Fin 365);
          time = Fin 0;
          orbitPointsCache = orbitLoop orbitRadius orbitEccentricity 0 []
      in \<lparr>plName = plName,
          hostName = hostName,
          orbitAu = plOrbsmax,
          planetRadiusRe = plRade,
          hzInnerAu = inner hzAu,
          hzOuterAu = outer hzAu,
          inHabitableZone = inHz,
          habitableZoneStatus = habitableZoneStatus,
          orbitalPeriodDays = orbitalPeriodDays,
          starRadius = starRadius,
          orbitRadius = orbitRadius,
          planetRadius = planetRadius,
          hzInner = hzInner,
          hzOuter = hzOuter,
          orbitEccentricity = orbitEccentricity,
          eccentricityKnown = eccentricityKnown,
          orbitPointsCache = orbitPointsCache,
          time = time\<rparr>)"

text \<open>The methods of the returned object; \<open>update\<close> returns the state it leaves.\<close>

definition getOrbitPoints :: "SimulationState \<Rightarrow> point list" where
  "getOrbitPoints s = orbitPointsCache s"

definition update :: "SimulationState \<Rightarrow> jsnum \<Rightarrow> SimulationState" where
  "update s deltaTime = s\<lparr>time := jadd (time s) deltaTime\<rparr>"

definition getPlanetPosition :: "SimulationState \<Rightarrow> point" where
  "getPlanetPosition s = positionAtTime (orbitRadius s) (orbitEccentricity s) (time s)"

definition getElapsedDays :: "SimulationState \<Rightarrow> jsnum" where
  "getElapsedDays s = jmul (jdiv (time s) (jmul (Fin 2) Math_PI)) (orbitalPeriodDays s)"

definition getElapsedYears :: "SimulationState \<Rightarrow> jsnum" where
  "getElapsedYears s = jdiv (getElapsedDays s) (Fin 365.25)"

text \<open>
  A caller holds the object and calls its methods one after the other. A call is a value,
  and \<open>invoke\<close> gives what the call returns and the state it leaves.
\<close>

datatype call =
  Update jsnum | GetOrbitPoints | GetPlanetPosition | GetElapsedDays | GetElapsedYears

datatype ret = RetVoid | RetPoints "point list" | RetPoint point | RetNumber jsnum

fun invoke :: "call \<Rightarrow> SimulationState \<Rightarrow> ret \<times> SimulationState" where
  "invoke (Update deltaTime) s = (RetVoid, update s deltaTime)"
| "invoke GetOrbitPoints s = (RetPoints (getOrbitPoints s), s)"
| "invoke GetPlanetPosition s = (RetPoint (getPlanetPosition s), s)"
| "invoke GetElapsedDays s = (RetNumber (getElapsedDays s), s)"
| "invoke GetElapsedYears s = (RetNumber (getElapsedYears s), s)"

fun run :: "call list \<Rightarrow> SimulationState \<Rightarrow> SimulationState" where
  "run [] s = s"
| "run (c # cs) s = run cs (snd (invoke c s))"

section \<open>Facts about the number model\<close>

lemma MAX_VALUE_ge: "1000 \<le> MAX_VALUE"
  unfolding MAX_VALUE_def by simp


lemma MIN_VALUE_bounds: "0 < MIN_VALUE" "MIN_VALUE < 1 / 1000"
  unfolding MIN_VALUE_def by simp_all

lemma overflow_Fin: "\<bar>r\<bar> \<le> MAX_VALUE \<Longrightarrow> overflow r = Fin r"
  by (auto simp: overflow_def)

lemma inRange_overflow: "inRange (overflow r)"
  by (auto simp: overflow_def)

lemma fit_zero: "fit 0 = Fin 0"
  using MIN_VALUE_bounds by (simp add: fit_def)

lemma fit_Fin: "MIN_VALUE / 2 < \<bar>r\<bar> \<Longrightarrow> \<bar>r\<bar> \<le> MAX_VALUE \<Longrightarrow> fit r = Fin r"
  by (simp add: fit_def overflow_Fin)

lemma fit_moderate: "1 / 1000 \<le> \<bar>r\<bar> \<Longrightarrow> \<bar>r\<bar> \<le> 1000 \<Longrightarrow> fit r = Fin r"
  using MIN_VALUE_bounds MAX_VALUE_ge by (intro fit_Fin) linarith+

lemma fit_not_NaN: "fit r \<noteq> NaN"
  by (simp add: fit_def overflow_def)

lemma fit_mono: "a \<le> b \<Longrightarrow> jle (fit a) (fit b)"
  using MIN_VALUE_bounds MAX_VALUE_ge by (auto simp: fit_def overflow_def)

lemma fit_nonneg_cases: "0 \<le> r \<Longrightarrow> fit r = Fin 0 \<or> fit r = Fin r \<or> fit r = PInf"
  using MAX_VALUE_ge by (auto simp: fit_def overflow_def)





lemma isFinite_Fin: "isFinite n \<Longrightarrow> \<exists>q. n = Fin q"
  by (cases n) simp_all

lemma Math_min_le: "isFinite b \<Longrightarrow> isFinite (Math_min (Fin c) b) \<and> jle (Math_min (Fin c) b) (Fin c)"
  by (cases b) (auto simp: Math_min_def)

lemma jadd_nonneg: "jle (Fin 0) t \<Longrightarrow> jle (Fin 0) d \<Longrightarrow> jle (Fin 0) (jadd t d)"
  using MAX_VALUE_ge by (cases t; cases d) (auto simp: overflow_def)

lemma jadd_finite_step:
  "inRange t \<Longrightarrow> t \<noteq> NaN \<Longrightarrow> inRange (jadd t (Fin d)) \<and> jadd t (Fin d) \<noteq> NaN"
  by (cases t) (auto simp: overflow_def)

lemma jadd_nondecreasing: "inRange t \<Longrightarrow> t \<noteq> NaN \<Longrightarrow> 0 \<le> d \<Longrightarrow> jle t (jadd t (Fin d))"
  by (cases t) (auto simp: overflow_def)

lemma jadd_zero_left: "inRange d \<Longrightarrow> jadd (Fin 0) d = d"
  by (cases d) (simp_all add: overflow_Fin)

lemma inRange_jadd: "inRange (jadd a b)"
  by (cases a; cases b) (simp_all add: inRange_overflow)

lemma two_pi: "jmul (Fin 2) Math_PI = Fin (2 * pi)"
proof -
  have "2 \<le> pi" "pi \<le> 4" using pi_ge_two pi_less_4 by simp_all
  then have "1 / 1000 \<le> \<bar>2 * pi\<bar>" "\<bar>2 * pi\<bar> \<le> 1000" by simp_all
  then show ?thesis by (simp add: Math_PI_def fit_moderate)
qed

lemma MAX_VALUE_lt_pow10_309: "MAX_VALUE < 10 ^ 309"
proof -
  have "(2::real) ^ 1024 \<le> 10 ^ 309" by simp
  moreover have "MAX_VALUE < 2 ^ 1024" unfolding MAX_VALUE_def by simp
  ultimately show ?thesis by linarith
qed

lemma pow10_308_in_range: "(10::real) ^ 308 \<le> MAX_VALUE"
  unfolding MAX_VALUE_def by simp

lemma twice_pow10_308_overflows: "MAX_VALUE < 10 ^ 308 + (10::real) ^ 308"
  unfolding MAX_VALUE_def by simp

lemma half_MIN_VALUE_bounds:
  "1 / 10 ^ 324 \<le> MIN_VALUE / 2" "MIN_VALUE / 2 < 3 / 4 * (1 / 10 ^ 323)"
  unfolding MIN_VALUE_def by simp_all


lemma powr10_mono: "p \<le> q \<Longrightarrow> (10::real) powr p \<le> 10 powr q"
  by (rule powr_mono) simp_all

lemma powr10_neg: "(10::real) powr (- real n) = 1 / 10 ^ n"
  by (simp add: powr_minus powr_realpow inverse_eq_divide)

lemma powr10_pos: "(10::real) powr (real n) = 10 ^ n"
  by (simp add: powr_realpow)




section \<open>Facts about the functions of the model\<close>

lemma toUpperCase_keys:
  "toUpperCase ''pl_name'' = ''PL_NAME''"
  "toUpperCase ''hostname'' = ''HOSTNAME''"
  "toUpperCase ''st_rad'' = ''ST_RAD''"
  "toUpperCase ''st_lum'' = ''ST_LUM''"
  "toUpperCase ''pl_orbsmax'' = ''PL_ORBSMAX''"
  "toUpperCase ''pl_orbeccen'' = ''PL_ORBECCEN''"
  "toUpperCase ''pl_rade'' = ''PL_RADE''"
  "toUpperCase ''pl_orbper'' = ''PL_ORBPER''"
  by code_simp+

lemma isFinite_num: "isFinite fallback \<Longrightarrow> isFinite (num S r key fallback)"
  by (simp add: num_def Let_def)

lemma pow10_fit: "Math_pow (Fin 10) (Fin q) = fit (10 powr q)"
  by (simp add: fit_moderate)

lemma sqrt_scale_in_range:
  assumes "0 \<le> p" "p \<le> MAX_VALUE" "0 \<le> c" "c \<le> 2"
  shows "c * sqrt p \<le> MAX_VALUE"
proof (cases "p \<le> 4")
  case True
  then have "sqrt p \<le> sqrt 4" using real_sqrt_le_iff by blast
  then have "sqrt p \<le> 2" by simp
  then have "c * sqrt p \<le> 2 * 2" using assms by (intro mult_mono) auto
  then show ?thesis using MAX_VALUE_ge by linarith
next
  case False
  then have "2 \<le> sqrt p"
    using real_sqrt_le_iff [of 4 p] by simp
  then have "2 * sqrt p \<le> sqrt p * sqrt p"
    using assms by (intro mult_right_mono) auto
  then have "2 * sqrt p \<le> p" using assms by simp
  moreover have "c * sqrt p \<le> 2 * sqrt p" using assms by (intro mult_right_mono) auto
  ultimately show ?thesis using assms by linarith
qed

lemma sqrt_ge_min: "0 \<le> p \<Longrightarrow> min p 1 \<le> sqrt p"
proof (cases "p \<le> 1")
  case True
  assume p: "0 \<le> p"
  then have "sqrt p \<le> 1" using True by simp
  then have "sqrt p * sqrt p \<le> sqrt p * 1" using p by (intro mult_left_mono) simp_all
  then show ?thesis using p True by simp
next
  case False
  then show ?thesis by simp
qed

lemma habitableZoneAU_finite:
  "habitableZoneAU (Some (Fin q))
     = \<lparr>inner = jmul (Fin 0.75) (Math_sqrt (fit (10 powr q))),
        outer = jmul (Fin 1.77) (Math_sqrt (fit (10 powr q)))\<rparr>"
  unfolding habitableZoneAU_def
  by (simp only: option.case isFinite.simps Let_def pow10_fit simp_thms if_False)

lemma scaled_sqrt_ordered:
  assumes "0 \<le> p"
  shows "jle (jmul (Fin 0.75) (Math_sqrt (fit p))) (jmul (Fin 1.77) (Math_sqrt (fit p)))
       \<and> jmul (Fin 0.75) (Math_sqrt (fit p)) \<noteq> NaN
       \<and> jmul (Fin 1.77) (Math_sqrt (fit p)) \<noteq> NaN"
proof -
  from fit_nonneg_cases [OF assms] consider "fit p = Fin 0" | "fit p = Fin p" | "fit p = PInf"
    by blast
  then show ?thesis
  proof cases
    case 1
    then show ?thesis by (simp add: fit_zero)
  next
    case 2
    have "(0.75::real) * sqrt p \<le> 1.77 * sqrt p"
      using assms by (intro mult_right_mono) auto
    from fit_mono [OF this] show ?thesis
      using 2 assms by (simp add: fit_not_NaN)
  next
    case 3
    then show ?thesis by simp
  qed
qed

lemma hz_bounds_ordered:
  "isFinite l \<Longrightarrow>
     jle (inner (habitableZoneAU (Some l))) (outer (habitableZoneAU (Some l)))
     \<and> inner (habitableZoneAU (Some l)) \<noteq> NaN \<and> outer (habitableZoneAU (Some l)) \<noteq> NaN"
proof -
  assume "isFinite l"
  then obtain q where l: "l = Fin q" using isFinite_Fin by blast
  have "(0::real) \<le> 10 powr q" by simp
  from scaled_sqrt_ordered [OF this] show ?thesis
    unfolding l habitableZoneAU_finite by simp
qed

lemma hz_moderate:
  assumes "- 323 \<le> q" "q \<le> 308"
  shows "habitableZoneAU (Some (Fin q))
     = \<lparr>inner = Fin (0.75 * sqrt (10 powr q)), outer = Fin (1.77 * sqrt (10 powr q))\<rparr>
     \<and> 0 < sqrt (10 powr q)"
proof -
  let ?p = "10 powr q"
  define m :: real where "m = 1 / 10 ^ 323"
  have m: "0 < m" "m \<le> 1" unfolding m_def by simp_all
  have hm: "MIN_VALUE / 2 < 3 / 4 * m" unfolding m_def by (rule half_MIN_VALUE_bounds(2))
  have "(10::real) powr (- real (323::nat)) \<le> ?p"
    using assms(1) by (intro powr10_mono) simp
  then have lo: "m \<le> ?p" unfolding m_def by (simp only: powr10_neg)
  have "?p \<le> (10::real) powr (real (308::nat))"
    using assms(2) by (intro powr10_mono) simp
  then have "?p \<le> 10 ^ 308" by (simp only: powr10_pos)
  then have hi: "?p \<le> MAX_VALUE" using pow10_308_in_range by (rule order_trans)
  have pos: "0 < ?p" by simp
  have f: "fit ?p = Fin ?p"
  proof (rule fit_Fin)
    show "MIN_VALUE / 2 < \<bar>?p\<bar>" using lo hm m by linarith
    show "\<bar>?p\<bar> \<le> MAX_VALUE" using hi by simp
  qed
  have "min ?p 1 \<le> sqrt ?p" using sqrt_ge_min [of ?p] by simp
  moreover have "m \<le> min ?p 1" using lo m by simp
  ultimately have sl: "m \<le> sqrt ?p" by linarith
  have sp: "0 < sqrt ?p" by simp
  have "3 / 4 * m \<le> 3 / 4 * sqrt ?p" using sl by (intro mult_left_mono) simp_all
  then have c1: "MIN_VALUE / 2 < 3 / 4 * sqrt ?p" using hm by linarith
  have "3 / 4 * sqrt ?p \<le> 177 / 100 * sqrt ?p" by (intro mult_right_mono) simp_all
  then have c2: "MIN_VALUE / 2 < 177 / 100 * sqrt ?p" using c1 by linarith
  have a1: "MIN_VALUE / 2 < \<bar>0.75 * sqrt ?p\<bar>"
    using c1 by (simp add: abs_mult)
  have a2: "MIN_VALUE / 2 < \<bar>1.77 * sqrt ?p\<bar>"
    using c2 by (simp add: abs_mult)
  have b1: "\<bar>0.75 * sqrt ?p\<bar> \<le> MAX_VALUE"
    using sqrt_scale_in_range [OF _ hi, of "0.75"] by simp
  have b2: "\<bar>1.77 * sqrt ?p\<bar> \<le> MAX_VALUE"
    using sqrt_scale_in_range [OF _ hi, of "1.77"] by simp
  have "Math_sqrt (fit ?p) = Fin (sqrt ?p)" unfolding f by simp
  then show ?thesis
    unfolding habitableZoneAU_finite
    by (simp only: jmul.simps fit_Fin [OF a1 b1] fit_Fin [OF a2 b2]) simp
qed

lemma hz_overflow:
  assumes "309 \<le> q"
  shows "habitableZoneAU (Some (Fin q)) = \<lparr>inner = PInf, outer = PInf\<rparr>"
proof -
  have "(10::real) powr (real (309::nat)) \<le> 10 powr q"
    using assms by (intro powr10_mono) simp
  then have "(10::real) ^ 309 \<le> 10 powr q" by (simp only: powr10_pos)
  with MAX_VALUE_lt_pow10_309 have "MAX_VALUE < 10 powr q" by (rule less_le_trans)
  then have "fit (10 powr q) = PInf"
    using MIN_VALUE_bounds MAX_VALUE_ge by (simp add: fit_def overflow_def)
  then show ?thesis unfolding habitableZoneAU_finite by simp
qed

lemma hz_underflow:
  assumes "q \<le> - 324"
  shows "habitableZoneAU (Some (Fin q)) = \<lparr>inner = Fin 0, outer = Fin 0\<rparr>"
proof -
  have "10 powr q \<le> (10::real) powr (- real (324::nat))"
    using assms by (intro powr10_mono) simp
  then have "10 powr q \<le> 1 / 10 ^ 324" by (simp only: powr10_neg)
  then have "10 powr q \<le> MIN_VALUE / 2" using half_MIN_VALUE_bounds(1) by (rule order_trans)
  then have "fit (10 powr q) = Fin 0" by (simp add: fit_def)
  then show ?thesis unfolding habitableZoneAU_finite by (simp add: fit_zero)
qed

lemma classify:
  assumes "a \<noteq> NaN" "i \<noteq> NaN" "u \<noteq> NaN" "jle i u"
    and "st = (if jle i a \<and> jle a u then Status_in
               else if jlt a i then Status_too_close else Status_too_far)"
  shows "((st = Status_in) = (jle i a \<and> jle a u))
       \<and> ((st = Status_too_close) = jlt a i)
       \<and> ((st = Status_too_far) = jlt u a)"
  using assms by (cases a; cases i; cases u) auto





lemma positionAtTime_circle_0:
  "positionAtTime (Fin 1) (Fin 0) (Fin 0) = \<lparr>x = Fin 1, y = Fin 0, z = Fin 0\<rparr>"
  using MAX_VALUE_ge
  by (simp add: positionAtTime_def radiusAtAngle_def Let_def fit_zero fit_moderate overflow_Fin)



lemma subnormal_orbit_position:
  "positionAtTime (Fin MIN_VALUE) (Fin 0.75) (Fin 0) = \<lparr>x = Fin 0, y = Fin 0, z = Fin 0\<rparr>"
proof -
  have u: "fit (MIN_VALUE * 7 / 16) = Fin 0"
    using MIN_VALUE_bounds by (simp add: fit_def)
  have "radiusAtAngle (Fin MIN_VALUE) (Fin 0.75) (Fin 0) = Fin 0"
    using MAX_VALUE_ge
    by (simp add: radiusAtAngle_def fit_zero fit_moderate overflow_Fin u)
  then show ?thesis
    by (simp add: positionAtTime_def Let_def fit_zero)
qed


declare orbitLoop.simps [simp del]

lemma orbit_angle:
  assumes "i \<le> 64"
  shows "jmul (jmul (jdiv (Fin (real i)) (Fin 64)) Math_PI) (Fin 2) = Fin (real i * (2 * pi) / 64)"
proof (cases "i = 0")
  case True
  then show ?thesis by (simp add: Math_PI_def fit_zero)
next
  case False
  then have i: "1 / 64 \<le> real i / 64" "real i / 64 \<le> 1" using assms by simp_all
  have p: "2 \<le> pi" "pi \<le> 4" using pi_ge_two pi_less_4 by simp_all
  have m1: "1 / 64 * 2 \<le> real i / 64 * pi"
    by (rule mult_mono) (use i p in simp_all)
  have m2: "real i / 64 * pi \<le> 1 * 4"
    by (rule mult_mono) (use i p in simp_all)
  note m = m1 m2
  have q1: "1 / 1000 \<le> \<bar>real i / 64\<bar>" "\<bar>real i / 64\<bar> \<le> 1000" using i by linarith+
  have q2: "1 / 1000 \<le> \<bar>real i / 64 * pi\<bar>" "\<bar>real i / 64 * pi\<bar> \<le> 1000" using m by linarith+
  have q3: "1 / 1000 \<le> \<bar>real i / 64 * pi * 2\<bar>" "\<bar>real i / 64 * pi * 2\<bar> \<le> 1000"
    using m by linarith+
  have n: "(64::real) \<noteq> 0" by simp
  have "jmul (jmul (jdiv (Fin (real i)) (Fin 64)) Math_PI) (Fin 2) = Fin (real i / 64 * pi * 2)"
    by (simp only: jdiv.simps(1) jmul.simps(1) Math_PI_def n if_False
        fit_moderate [OF q1] fit_moderate [OF q2] fit_moderate [OF q3])
  then show ?thesis by simp
qed

lemma orbitLoop_eq:
  "orbitLoop a e i cache =
     cache @ map (\<lambda>k. positionAtTime a e (jmul (jmul (jdiv (Fin (real k)) (Fin 64)) Math_PI) (Fin 2)))
               [i ..< 65]"
proof (induction a e i cache rule: orbitLoop.induct)
  case (1 a e i cache)
  let ?f = "\<lambda>k. positionAtTime a e (jmul (jmul (jdiv (Fin (real k)) (Fin 64)) Math_PI) (Fin 2))"
  show ?case
  proof (cases "i \<le> 64")
    case True
    then have u: "[i ..< 65] = i # [Suc i ..< 65]" by (simp add: upt_conv_Cons)
    have "orbitLoop a e i cache = orbitLoop a e (Suc i) (cache @ [?f i])"
      by (subst orbitLoop.simps) (simp only: True if_True Let_def)
    also have "\<dots> = (cache @ [?f i]) @ map ?f [Suc i ..< 65]"
      by (rule 1 [OF True refl])
    also have "\<dots> = cache @ map ?f [i ..< 65]"
      by (simp only: u list.map append_assoc append.simps)
    finally show ?thesis .
  next
    case False
    then have "[i ..< 65] = []" by simp
    moreover have "orbitLoop a e i cache = cache"
      by (subst orbitLoop.simps) (simp only: False if_False)
    ultimately show ?thesis by (simp only: list.map append_Nil2)
  qed
qed

section \<open>Facts about the constructed state\<close>

lemma create_orbitAu: "orbitAu (createSimulationFromRow S r) = num S r ''pl_orbsmax'' (Fin 1)"
  by (simp add: createSimulationFromRow_def Let_def)

lemma create_orbitRadius: "orbitRadius (createSimulationFromRow S r) = num S r ''pl_orbsmax'' (Fin 1)"
  by (simp add: createSimulationFromRow_def Let_def)

lemma create_hzInnerAu:
  "hzInnerAu (createSimulationFromRow S r) = inner (habitableZoneAU (Some (num S r ''st_lum'' (Fin 0))))"
  by (simp add: createSimulationFromRow_def Let_def)

lemma create_hzOuterAu:
  "hzOuterAu (createSimulationFromRow S r) = outer (habitableZoneAU (Some (num S r ''st_lum'' (Fin 0))))"
  by (simp add: createSimulationFromRow_def Let_def)

lemma create_habitableZoneStatus:
  "habitableZoneStatus (createSimulationFromRow S r) =
     (if jle (hzInnerAu (createSimulationFromRow S r)) (orbitAu (createSimulationFromRow S r))
         \<and> jle (orbitAu (createSimulationFromRow S r)) (hzOuterAu (createSimulationFromRow S r))
      then Status_in
      else if jlt (orbitAu (createSimulationFromRow S r)) (hzInnerAu (createSimulationFromRow S r))
      then Status_too_close else Status_too_far)"
  by (simp add: createSimulationFromRow_def Let_def)

lemma create_orbitEccentricity:
  "orbitEccentricity (createSimulationFromRow S r) = Math_min (Fin 0.99) (num S r ''pl_orbeccen'' (Fin 0))"
  by (simp add: createSimulationFromRow_def Let_def)

lemma create_eccentricityKnown:
  "eccentricityKnown (createSimulationFromRow S r)
     = (\<not> nullish (get r ''pl_orbeccen'') \<and> isFinite (Number S (get r ''pl_orbeccen'')))"
  by (simp add: createSimulationFromRow_def Let_def)

lemma create_orbitalPeriodDays:
  "orbitalPeriodDays (createSimulationFromRow S r)
     = (if jlt (Fin 0) (num S r ''pl_orbper'' (Fin 365)) then num S r ''pl_orbper'' (Fin 365) else Fin 365)"
  by (simp add: createSimulationFromRow_def Let_def)

lemma create_time: "time (createSimulationFromRow S r) = Fin 0"
  by (simp add: createSimulationFromRow_def Let_def)

lemma create_orbitPointsCache:
  "orbitPointsCache (createSimulationFromRow S r)
     = orbitLoop (orbitRadius (createSimulationFromRow S r)) (orbitEccentricity (createSimulationFromRow S r)) 0 []"
  by (simp add: createSimulationFromRow_def Let_def)

lemma create_orbit_points:
  "length (orbitPointsCache (createSimulationFromRow S r)) = 65"
  "i \<le> 64 \<Longrightarrow> orbitPointsCache (createSimulationFromRow S r) ! i
     = positionAtTime (orbitRadius (createSimulationFromRow S r))
         (orbitEccentricity (createSimulationFromRow S r)) (Fin (real i * (2 * pi) / 64))"
proof -
  let ?a = "orbitRadius (createSimulationFromRow S r)"
  let ?e = "orbitEccentricity (createSimulationFromRow S r)"
  let ?f = "\<lambda>k. positionAtTime ?a ?e (jmul (jmul (jdiv (Fin (real k)) (Fin 64)) Math_PI) (Fin 2))"
  have c: "orbitPointsCache (createSimulationFromRow S r) = map ?f [0 ..< 65]"
    by (simp only: create_orbitPointsCache orbitLoop_eq append_Nil)
  show "length (orbitPointsCache (createSimulationFromRow S r)) = 65"
    unfolding c by simp
  assume i: "i \<le> 64"
  then have l: "i < length [0 ..< 65]" by (simp del: upt_Suc)
  have "map ?f [0 ..< 65] ! i = ?f ([0 ..< 65] ! i)" by (rule nth_map [OF l])
  also have "[0 ..< 65] ! i = i" using i by (simp del: upt_Suc)
  finally show "orbitPointsCache (createSimulationFromRow S r) ! i
     = positionAtTime ?a ?e (Fin (real i * (2 * pi) / 64))"
    by (simp only: c orbit_angle [OF i])
qed

lemma empty_row_orbit:
  "orbitRadius (createSimulationFromRow S Map.empty) = Fin 1"
  "orbitEccentricity (createSimulationFromRow S Map.empty) = Fin 0"
  by (simp_all add: create_orbitRadius create_orbitEccentricity num_def get_def field_def Math_min_def)




lemma period_of_record:
  "orbitalPeriodDays (createSimulationFromRow S r) =
     (case (case r ''pl_orbper'' of
              None \<Rightarrow> r ''PL_ORBPER''
            | Some JUndefined \<Rightarrow> r ''PL_ORBPER''
            | Some JNull \<Rightarrow> r ''PL_ORBPER''
            | Some v \<Rightarrow> Some v) of
        Some (JNum n) \<Rightarrow> if isFinite n \<and> jlt (Fin 0) n then n else Fin 365
      | Some (JStr str) \<Rightarrow> if isFinite (S str) \<and> jlt (Fin 0) (S str) then S str else Fin 365
      | Some (JBool b) \<Rightarrow> if b then Fin 1 else Fin 365
      | _ \<Rightarrow> Fin 365)"
  unfolding create_orbitalPeriodDays num_def get_def field_def toUpperCase_keys Let_def
  by (auto split: option.splits jsval.splits)

section \<open>Facts about method calls\<close>

lemma invoke_frame: "snd (invoke c s) = s\<lparr>time := time (snd (invoke c s))\<rparr>"
  by (cases c) (simp_all add: update_def)

lemma run_frame: "run cs s = s\<lparr>time := time (run cs s)\<rparr>"
proof (induction cs arbitrary: s)
  case Nil
  show ?case by simp
next
  case (Cons c cs)
  have "run (c # cs) s = run cs (snd (invoke c s))" by simp
  also have "\<dots> = (snd (invoke c s))\<lparr>time := time (run cs (snd (invoke c s)))\<rparr>"
    by (rule Cons.IH)
  also have "\<dots> = (s\<lparr>time := time (snd (invoke c s))\<rparr>)\<lparr>time := time (run cs (snd (invoke c s)))\<rparr>"
    using invoke_frame [of c s] by simp
  finally show ?case by simp
qed

lemma run_orbitalPeriodDays: "orbitalPeriodDays (run cs s) = orbitalPeriodDays s"
  by (subst run_frame) simp

lemma run_orbitPointsCache: "orbitPointsCache (run cs s) = orbitPointsCache s"
  by (subst run_frame) simp


lemma time_run_nonneg:
  "(\<forall>c \<in> set cs. \<forall>d. c = Update d \<longrightarrow> jle (Fin 0) d) \<Longrightarrow> jle (Fin 0) (time s)
     \<Longrightarrow> jle (Fin 0) (time (run cs s))"
proof (induction cs arbitrary: s)
  case Nil
  then show ?case by simp
next
  case (Cons c cs)
  have "jle (Fin 0) (time (snd (invoke c s)))"
  proof (cases c)
    case (Update d)
    with Cons.prems have "jle (Fin 0) d" by simp
    then show ?thesis using Cons.prems(2) Update by (simp add: update_def jadd_nonneg)
  qed (use Cons.prems(2) in simp_all)
  with Cons show ?case by simp
qed

lemma time_run_finite_steps:
  "(\<forall>c \<in> set cs. \<forall>d. c = Update d \<longrightarrow> isFinite d) \<Longrightarrow> inRange (time s) \<and> time s \<noteq> NaN
     \<Longrightarrow> inRange (time (run cs s)) \<and> time (run cs s) \<noteq> NaN"
proof (induction cs arbitrary: s)
  case Nil
  then show ?case by simp
next
  case (Cons c cs)
  have "inRange (time (snd (invoke c s))) \<and> time (snd (invoke c s)) \<noteq> NaN"
  proof (cases c)
    case (Update d)
    with Cons.prems have "isFinite d" by simp
    then obtain q where "d = Fin q" using isFinite_Fin by blast
    then show ?thesis using Cons.prems(2) Update jadd_finite_step [of "time s" q]
      by (simp add: update_def)
  qed (use Cons.prems(2) in simp_all)
  with Cons show ?case by simp
qed

section \<open>Worked examples\<close>

lemma sun_zone: "habitableZoneAU (Some (Fin 0)) = \<lparr>inner = Fin 0.75, outer = Fin 1.77\<rparr>"
  unfolding habitableZoneAU_finite by (simp add: fit_moderate)

text \<open>
  The states built from a record of the Sun and the Earth, with the orbit at 1, 0.5 and
  3 AU: the zone is \<open>[0.75, 1.77]\<close> and the planet is in it, too close and too far.
\<close>

lemma sun_earth_scenarios:
  fixes row :: "real \<Rightarrow> row"
  defines "row \<equiv> \<lambda>a. [''pl_name'' \<mapsto> JStr ''X'', ''hostname'' \<mapsto> JStr ''Y'',
      ''st_rad'' \<mapsto> JNum (Fin 1), ''st_lum'' \<mapsto> JNum (Fin 0), ''pl_orbsmax'' \<mapsto> JNum (Fin a),
      ''pl_orbeccen'' \<mapsto> JNum (Fin 0), ''pl_rade'' \<mapsto> JNum (Fin 1), ''pl_orbper'' \<mapsto> JNum (Fin 365)]"
  shows "hzInnerAu (createSimulationFromRow S (row 1)) = Fin 0.75"
    and "hzOuterAu (createSimulationFromRow S (row 1)) = Fin 1.77"
    and "habitableZoneStatus (createSimulationFromRow S (row 1)) = Status_in"
    and "habitableZoneStatus (createSimulationFromRow S (row 0.5)) = Status_too_close"
    and "habitableZoneStatus (createSimulationFromRow S (row 3)) = Status_too_far"
    and "eccentricityKnown (createSimulationFromRow S (row 1))"
    and "orbitalPeriodDays (createSimulationFromRow S (row 1)) = Fin 365"
proof -
  have lum: "num S (row a) ''st_lum'' (Fin 0) = Fin 0" for a
    by (simp add: row_def num_def get_def field_def)
  have orb: "num S (row a) ''pl_orbsmax'' (Fin 1) = Fin a" for a
    by (simp add: row_def num_def get_def field_def)
  have ecc: "get (row a) ''pl_orbeccen'' = JNum (Fin 0)" for a
    by (simp add: row_def get_def field_def)
  have per: "num S (row a) ''pl_orbper'' (Fin 365) = Fin 365" for a
    by (simp add: row_def num_def get_def field_def)
  show "hzInnerAu (createSimulationFromRow S (row 1)) = Fin 0.75"
    by (simp add: create_hzInnerAu lum sun_zone)
  show "hzOuterAu (createSimulationFromRow S (row 1)) = Fin 1.77"
    by (simp add: create_hzOuterAu lum sun_zone)
  show "habitableZoneStatus (createSimulationFromRow S (row 1)) = Status_in"
    by (simp add: create_habitableZoneStatus create_hzInnerAu create_hzOuterAu create_orbitAu
        lum orb sun_zone)
  show "habitableZoneStatus (createSimulationFromRow S (row 0.5)) = Status_too_close"
    by (simp add: create_habitableZoneStatus create_hzInnerAu create_hzOuterAu create_orbitAu
        lum orb sun_zone)
  show "habitableZoneStatus (createSimulationFromRow S (row 3)) = Status_too_far"
    by (simp add: create_habitableZoneStatus create_hzInnerAu create_hzOuterAu create_orbitAu
        lum orb sun_zone)
  show "eccentricityKnown (createSimulationFromRow S (row 1))"
    by (simp add: create_eccentricityKnown ecc)
  show "orbitalPeriodDays (createSimulationFromRow S (row 1)) = Fin 365"
    by (simp add: create_orbitalPeriodDays per)
qed

text \<open>
  An orbit radius of \<^verbatim>\<open>5e-324\<close>, the smallest positive double, with eccentricity 0.75: the
  product \<open>a * (1 - e * e)\<close> underflows to 0 and the planet sits at the origin.
\<close>

lemma subnormal_orbit_state:
  "getPlanetPosition (createSimulationFromRow S
      [''pl_orbsmax'' \<mapsto> JNum (Fin MIN_VALUE), ''pl_orbeccen'' \<mapsto> JNum (Fin 0.75)])
     = \<lparr>x = Fin 0, y = Fin 0, z = Fin 0\<rparr>"
proof -
  have "orbitRadius (createSimulationFromRow S
      [''pl_orbsmax'' \<mapsto> JNum (Fin MIN_VALUE), ''pl_orbeccen'' \<mapsto> JNum (Fin 0.75)]) = Fin MIN_VALUE"
    by (simp add: create_orbitRadius num_def get_def field_def toUpperCase_keys)
  moreover have "orbitEccentricity (createSimulationFromRow S
      [''pl_orbsmax'' \<mapsto> JNum (Fin MIN_VALUE), ''pl_orbeccen'' \<mapsto> JNum (Fin 0.75)]) = Fin 0.75"
    by (simp add: create_orbitEccentricity num_def get_def field_def Math_min_def toUpperCase_keys)
  ultimately show ?thesis
    by (simp only: getPlanetPosition_def create_time subnormal_orbit_position)
qed

section \<open>Properties\<close>

subsection \<open>Habitable-zone classification\<close>

text \<open>
  C1: for every constructed state, \<open>habitableZoneStatus\<close> is \<^verbatim>\<open>"in"\<close> exactly when
  \<open>hzInnerAu \<le> orbitAu \<le> hzOuterAu\<close>, both bounds included; it is \<^verbatim>\<open>"too-close"\<close>
  exactly when \<open>orbitAu < hzInnerAu\<close> and \<^verbatim>\<open>"too-far"\<close> exactly when
  \<open>orbitAu > hzOuterAu\<close>.
\<close>

theorem C1_status_classifies_orbit:
  "((habitableZoneStatus (createSimulationFromRow S r) = Status_in)
      = (jle (hzInnerAu (createSimulationFromRow S r)) (orbitAu (createSimulationFromRow S r))
         \<and> jle (orbitAu (createSimulationFromRow S r)) (hzOuterAu (createSimulationFromRow S r))))
   \<and> ((habitableZoneStatus (createSimulationFromRow S r) = Status_too_close)
      = jlt (orbitAu (createSimulationFromRow S r)) (hzInnerAu (createSimulationFromRow S r)))
   \<and> ((habitableZoneStatus (createSimulationFromRow S r) = Status_too_far)
      = jlt (hzOuterAu (createSimulationFromRow S r)) (orbitAu (createSimulationFromRow S r)))"
proof -
  let ?s = "createSimulationFromRow S r"
  have "isFinite (orbitAu ?s)"
    unfolding create_orbitAu by (rule isFinite_num) simp
  then have a: "orbitAu ?s \<noteq> NaN" by (cases "orbitAu ?s") simp_all
  have "isFinite (num S r ''st_lum'' (Fin 0))" by (rule isFinite_num) simp
  from hz_bounds_ordered [OF this]
  have io: "jle (hzInnerAu ?s) (hzOuterAu ?s)" and i: "hzInnerAu ?s \<noteq> NaN" and o: "hzOuterAu ?s \<noteq> NaN"
    unfolding create_hzInnerAu create_hzOuterAu by blast+
  show ?thesis
    by (rule classify [OF a i o io create_habitableZoneStatus])
qed

text \<open>
  C10: for every input record, the field \<open>inHabitableZone\<close> of the constructed state is
  true exactly when \<open>habitableZoneStatus\<close> is \<^verbatim>\<open>"in"\<close>.
\<close>

theorem C10_inHabitableZone_iff_status_in:
  "inHabitableZone (createSimulationFromRow S r)
     = (habitableZoneStatus (createSimulationFromRow S r) = Status_in)"
  by (simp add: createSimulationFromRow_def Let_def)

subsection \<open>Habitable-zone bounds\<close>

text \<open>
  C2, as stated, fails: the log-luminosity 400 is finite, \<^verbatim>\<open>Math.pow(10, 400)\<close> overflows
  to \<^verbatim>\<open>Infinity\<close>, both bounds are \<^verbatim>\<open>Infinity\<close> and the inner one is not strictly
  less than the outer one.
\<close>

theorem C2_inner_lt_outer_counterexample:
  "isFinite (Fin 400)
   \<and> \<not> jlt (inner (habitableZoneAU (Some (Fin 400)))) (outer (habitableZoneAU (Some (Fin 400))))"
proof -
  have "habitableZoneAU (Some (Fin 400)) = \<lparr>inner = PInf, outer = PInf\<rparr>"
    by (rule hz_overflow) simp
  then show ?thesis by simp
qed

text \<open>
  C2, amended: \<open>habitableZoneAU\<close> returns \<open>{inner: 0.75, outer: 1.77}\<close> when its argument
  is \<^verbatim>\<open>null\<close> or not finite. For a finite log-luminosity \<open>l\<close> it returns
  \<open>inner = 0.75 * sqrt(10^l)\<close> and \<open>outer = 1.77 * sqrt(10^l)\<close>, with \<open>inner \<le> outer\<close>.
  For \<open>-323 \<le> l \<le> 308\<close> the bounds are finite and \<open>0 < inner < outer\<close>. For \<open>l \<ge> 309\<close> the
  power overflows and both bounds are \<^verbatim>\<open>Infinity\<close>; for \<open>l \<le> -324\<close> it underflows and both
  bounds are 0.
\<close>

theorem C2_habitableZoneAU:
  "habitableZoneAU None = \<lparr>inner = Fin 0.75, outer = Fin 1.77\<rparr>
   \<and> (\<not> isFinite l \<longrightarrow> habitableZoneAU (Some l) = \<lparr>inner = Fin 0.75, outer = Fin 1.77\<rparr>)
   \<and> (isFinite l \<longrightarrow>
        inner (habitableZoneAU (Some l)) = jmul (Fin 0.75) (Math_sqrt (Math_pow (Fin 10) l))
        \<and> outer (habitableZoneAU (Some l)) = jmul (Fin 1.77) (Math_sqrt (Math_pow (Fin 10) l))
        \<and> jle (inner (habitableZoneAU (Some l))) (outer (habitableZoneAU (Some l))))
   \<and> (- 323 \<le> q \<and> q \<le> 308 \<longrightarrow>
        jlt (Fin 0) (inner (habitableZoneAU (Some (Fin q))))
        \<and> jlt (inner (habitableZoneAU (Some (Fin q)))) (outer (habitableZoneAU (Some (Fin q))))
        \<and> isFinite (outer (habitableZoneAU (Some (Fin q)))))
   \<and> (309 \<le> q \<longrightarrow> habitableZoneAU (Some (Fin q)) = \<lparr>inner = PInf, outer = PInf\<rparr>)
   \<and> (q \<le> - 324 \<longrightarrow> habitableZoneAU (Some (Fin q)) = \<lparr>inner = Fin 0, outer = Fin 0\<rparr>)"
proof -
  have none: "habitableZoneAU None = \<lparr>inner = Fin 0.75, outer = Fin 1.77\<rparr>"
    by (simp add: habitableZoneAU_def)
  have nonfin: "\<not> isFinite l \<Longrightarrow> habitableZoneAU (Some l) = \<lparr>inner = Fin 0.75, outer = Fin 1.77\<rparr>"
    by (simp add: habitableZoneAU_def)
  have formula: "inner (habitableZoneAU (Some l)) = jmul (Fin 0.75) (Math_sqrt (Math_pow (Fin 10) l))
        \<and> outer (habitableZoneAU (Some l)) = jmul (Fin 1.77) (Math_sqrt (Math_pow (Fin 10) l))"
    if "isFinite l"
    using that by (simp add: habitableZoneAU_def Let_def)
  have strict: "jlt (Fin 0) (inner (habitableZoneAU (Some (Fin q))))
        \<and> jlt (inner (habitableZoneAU (Some (Fin q)))) (outer (habitableZoneAU (Some (Fin q))))
        \<and> isFinite (outer (habitableZoneAU (Some (Fin q))))"
    if h: "- 323 \<le> q \<and> q \<le> 308"
  proof -
    from h hz_moderate [of q]
    have z: "habitableZoneAU (Some (Fin q))
        = \<lparr>inner = Fin (0.75 * sqrt (10 powr q)), outer = Fin (1.77 * sqrt (10 powr q))\<rparr>"
      and s: "0 < sqrt (10 powr q)"
      by blast+
    have "(0.75::real) * sqrt (10 powr q) < 1.77 * sqrt (10 powr q)"
      using s by (intro mult_strict_right_mono) simp_all
    then show ?thesis unfolding z using s by simp
  qed
  show ?thesis
    using none nonfin formula strict hz_bounds_ordered [of l] hz_overflow [of q] hz_underflow [of q]
    by blast
qed

text \<open>
  The amended C2 at the arguments NaN, 0 (the Sun, with the bounds 0.75 and 1.77), 400
  and -400.
\<close>

theorem C2_habitableZoneAU_witness:
  "habitableZoneAU (Some NaN) = \<lparr>inner = Fin 0.75, outer = Fin 1.77\<rparr>
   \<and> inner (habitableZoneAU (Some (Fin 0))) = Fin 0.75
   \<and> outer (habitableZoneAU (Some (Fin 0))) = Fin 1.77
   \<and> jlt (inner (habitableZoneAU (Some (Fin 0)))) (outer (habitableZoneAU (Some (Fin 0))))
   \<and> habitableZoneAU (Some (Fin 400)) = \<lparr>inner = PInf, outer = PInf\<rparr>
   \<and> habitableZoneAU (Some (Fin (- 400))) = \<lparr>inner = Fin 0, outer = Fin 0\<rparr>"
proof -
  have a: "\<not> isFinite NaN" by simp
  have b: "isFinite (Fin 0)" by simp
  have c: "- 323 \<le> (0::real) \<and> (0::real) \<le> 308" by simp
  have d: "(309::real) \<le> 400" by simp
  have e: "(- 400::real) \<le> - 324" by simp
  from C2_habitableZoneAU [of NaN 0] a
  have 1: "habitableZoneAU (Some NaN) = \<lparr>inner = Fin 0.75, outer = Fin 1.77\<rparr>" by blast
  from C2_habitableZoneAU [of "Fin 0" 0] b c
  have 2: "jlt (inner (habitableZoneAU (Some (Fin 0)))) (outer (habitableZoneAU (Some (Fin 0))))"
    and 3: "inner (habitableZoneAU (Some (Fin 0))) = jmul (Fin 0.75) (Math_sqrt (Math_pow (Fin 10) (Fin 0)))"
    and 4: "outer (habitableZoneAU (Some (Fin 0))) = jmul (Fin 1.77) (Math_sqrt (Math_pow (Fin 10) (Fin 0)))"
    by blast+
  have 5: "inner (habitableZoneAU (Some (Fin 0))) = Fin 0.75"
    unfolding 3 by (simp add: fit_moderate)
  have 6: "outer (habitableZoneAU (Some (Fin 0))) = Fin 1.77"
    unfolding 4 by (simp add: fit_moderate)
  from C2_habitableZoneAU [of "Fin 0" 400] d
  have 7: "habitableZoneAU (Some (Fin 400)) = \<lparr>inner = PInf, outer = PInf\<rparr>" by blast
  from C2_habitableZoneAU [of "Fin 0" "- 400"] e
  have 8: "habitableZoneAU (Some (Fin (- 400))) = \<lparr>inner = Fin 0, outer = Fin 0\<rparr>" by blast
  show ?thesis using 1 2 5 6 7 8 by blast
qed

subsection \<open>Orbital position\<close>




subsection \<open>Eccentricity\<close>

text \<open>
  C4, as stated, fails: a record whose \<^verbatim>\<open>pl_orbeccen\<close> is \<open>-0.5\<close> gives the eccentricity
  \<open>-0.5\<close>, which is below 0. \<^verbatim>\<open>Math.min(0.99, plOrbeccen)\<close> bounds the value from
  above only.
\<close>

theorem C4_eccentricity_counterexample:
  "orbitEccentricity (createSimulationFromRow (\<lambda>s. NaN) [''pl_orbeccen'' \<mapsto> JNum (Fin (- 0.5))])
     = Fin (- 0.5)
   \<and> \<not> jle (Fin 0)
        (orbitEccentricity (createSimulationFromRow (\<lambda>s. NaN) [''pl_orbeccen'' \<mapsto> JNum (Fin (- 0.5))]))"
  by (simp add: create_orbitEccentricity num_def get_def field_def Math_min_def)

text \<open>
  C4, amended: for every input record, \<open>orbitEccentricity\<close> is a finite number that is at
  most 0.99, namely the smaller of 0.99 and the record's \<^verbatim>\<open>pl_orbeccen\<close> (0 when the field
  is absent or not a finite number). It lies in \<open>[0, 0.99]\<close> whenever that value is not
  negative, and it is 0 when the eccentricity is not known.
\<close>

theorem C4_eccentricity:
  "isFinite (orbitEccentricity (createSimulationFromRow S r))
   \<and> jle (orbitEccentricity (createSimulationFromRow S r)) (Fin 0.99)
   \<and> orbitEccentricity (createSimulationFromRow S r)
       = Math_min (Fin 0.99) (num S r ''pl_orbeccen'' (Fin 0))
   \<and> (jle (Fin 0) (num S r ''pl_orbeccen'' (Fin 0)) \<longrightarrow>
        jle (Fin 0) (orbitEccentricity (createSimulationFromRow S r)))
   \<and> (\<not> eccentricityKnown (createSimulationFromRow S r) \<longrightarrow>
        orbitEccentricity (createSimulationFromRow S r) = Fin 0)"
proof -
  have fin: "isFinite (num S r ''pl_orbeccen'' (Fin 0))" by (rule isFinite_num) simp
  then obtain q where q: "num S r ''pl_orbeccen'' (Fin 0) = Fin q" using isFinite_Fin by blast
  have unknown: "num S r ''pl_orbeccen'' (Fin 0) = Fin 0"
    if "\<not> eccentricityKnown (createSimulationFromRow S r)"
    using that unfolding create_eccentricityKnown by (auto simp: num_def Let_def)
  show ?thesis
    unfolding create_orbitEccentricity using Math_min_le [OF fin, of "0.99"] unknown
    by (auto simp: q Math_min_def)
qed

text \<open>
  The amended C4 at a record with eccentricity 2, which is clamped to 0.99, and at the
  empty record, whose eccentricity is not known.
\<close>

theorem C4_eccentricity_witness:
  "orbitEccentricity (createSimulationFromRow (\<lambda>s. NaN) [''pl_orbeccen'' \<mapsto> JNum (Fin 2)]) = Fin 0.99
   \<and> jle (Fin 0) (orbitEccentricity (createSimulationFromRow (\<lambda>s. NaN) [''pl_orbeccen'' \<mapsto> JNum (Fin 2)]))
   \<and> orbitEccentricity (createSimulationFromRow (\<lambda>s. NaN) Map.empty) = Fin 0"
proof -
  have n: "num (\<lambda>s. NaN) [''pl_orbeccen'' \<mapsto> JNum (Fin 2)] ''pl_orbeccen'' (Fin 0) = Fin 2"
    by (simp add: num_def get_def field_def)
  have k: "\<not> eccentricityKnown (createSimulationFromRow (\<lambda>s. NaN) Map.empty)"
    by (simp add: create_eccentricityKnown get_def field_def)
  from C4_eccentricity [of "\<lambda>s. NaN" "[''pl_orbeccen'' \<mapsto> JNum (Fin 2)]"]
  have 1: "orbitEccentricity (createSimulationFromRow (\<lambda>s. NaN) [''pl_orbeccen'' \<mapsto> JNum (Fin 2)]) = Fin 0.99"
    and 2: "jle (Fin 0) (orbitEccentricity (createSimulationFromRow (\<lambda>s. NaN) [''pl_orbeccen'' \<mapsto> JNum (Fin 2)]))"
    unfolding n by (simp_all add: Math_min_def)
  from C4_eccentricity [of "\<lambda>s. NaN" Map.empty] k
  have 3: "orbitEccentricity (createSimulationFromRow (\<lambda>s. NaN) Map.empty) = Fin 0"
    by blast
  show ?thesis using 1 2 3 by blast
qed

subsection \<open>Field extraction\<close>

text \<open>
  C5: for every record and field name, \<open>num\<close> returns \<open>Number(v)\<close>, where \<open>v\<close> is the
  value at the key as given or, when that is \<^verbatim>\<open>null\<close> or \<^verbatim>\<open>undefined\<close>, the value at
  the upper-case key, provided \<open>v\<close> is neither \<^verbatim>\<open>null\<close> nor \<^verbatim>\<open>undefined\<close> and
  \<open>Number(v)\<close> is finite; in every other case it returns the fallback, and it always
  returns a number. A record that has only the upper-case key is read, and a string that
  does not convert to a finite number, such as \<^verbatim>\<open>"N/A"\<close>, gives the fallback.
\<close>

theorem C5_num_extraction:
  "num S r key fallback =
     (let v = (if \<not> nullish (field r key) then field r key else field r (toUpperCase key))
      in if \<not> nullish v \<and> isFinite (Number S v) then Number S v else fallback)
   \<and> (nullish (field r key) \<and> r (toUpperCase key) = Some (JNum (Fin q)) \<longrightarrow>
        num S r key fallback = Fin q)
   \<and> (r key = Some (JStr s) \<and> \<not> isFinite (S s) \<longrightarrow> num S r key fallback = fallback)"
  by (auto simp: num_def get_def field_def Let_def)

text \<open>
  C5 at two records: one with only the upper-case key, one with the string \<^verbatim>\<open>"N/A"\<close>.
\<close>

theorem C5_num_extraction_witness:
  "num (\<lambda>s. NaN) [''PL_ORBPER'' \<mapsto> JNum (Fin 12)] ''pl_orbper'' (Fin 365) = Fin 12
   \<and> num (\<lambda>s. NaN) [''pl_orbper'' \<mapsto> JStr ''N/A''] ''pl_orbper'' (Fin 365) = Fin 365"
proof -
  have a: "nullish (field [''PL_ORBPER'' \<mapsto> JNum (Fin 12)] ''pl_orbper'')
        \<and> [''PL_ORBPER'' \<mapsto> JNum (Fin 12)] (toUpperCase ''pl_orbper'') = Some (JNum (Fin 12))"
    by (simp add: field_def toUpperCase_keys)
  have b: "[''pl_orbper'' \<mapsto> JStr ''N/A''] ''pl_orbper'' = Some (JStr ''N/A'')
        \<and> \<not> isFinite ((\<lambda>s. NaN) ''N/A'')"
    by simp
  from C5_num_extraction [of "\<lambda>s. NaN" "[''PL_ORBPER'' \<mapsto> JNum (Fin 12)]" "''pl_orbper''" "Fin 365" 12] a
  have 1: "num (\<lambda>s. NaN) [''PL_ORBPER'' \<mapsto> JNum (Fin 12)] ''pl_orbper'' (Fin 365) = Fin 12"
    by blast
  from C5_num_extraction [of "\<lambda>s. NaN" "[''pl_orbper'' \<mapsto> JStr ''N/A'']" "''pl_orbper''" "Fin 365" _ "''N/A''"] b
  have 2: "num (\<lambda>s. NaN) [''pl_orbper'' \<mapsto> JStr ''N/A''] ''pl_orbper'' (Fin 365) = Fin 365"
    by blast
  show ?thesis using 1 2 by blast
qed

subsection \<open>Elapsed time\<close>

text \<open>
  C6: for every constructed state, whatever calls have been made on it,
  \<open>getElapsedDays()\<close> returns \<open>(phase / (2 * pi)) * orbitalPeriodDays\<close> for the phase the
  state holds, and \<open>getElapsedYears()\<close> returns \<open>getElapsedDays() / 365.25\<close>. The period
  is read from the record: the value at \<^verbatim>\<open>pl_orbper\<close> or, when that is absent or
  \<^verbatim>\<open>null\<close>, the value at \<^verbatim>\<open>PL_ORBPER\<close>; \<open>orbitalPeriodDays\<close> is that value as a number
  when it is finite and strictly positive, and 365 otherwise.
\<close>

theorem C6_elapsed_time:
  "getElapsedDays (run cs (createSimulationFromRow S r))
     = jmul (jdiv (time (run cs (createSimulationFromRow S r))) (Fin (2 * pi)))
            (orbitalPeriodDays (createSimulationFromRow S r))
   \<and> getElapsedYears (run cs (createSimulationFromRow S r))
     = jdiv (getElapsedDays (run cs (createSimulationFromRow S r))) (Fin 365.25)
   \<and> orbitalPeriodDays (createSimulationFromRow S r) =
     (case (case r ''pl_orbper'' of
              None \<Rightarrow> r ''PL_ORBPER''
            | Some JUndefined \<Rightarrow> r ''PL_ORBPER''
            | Some JNull \<Rightarrow> r ''PL_ORBPER''
            | Some v \<Rightarrow> Some v) of
        Some (JNum n) \<Rightarrow> if isFinite n \<and> jlt (Fin 0) n then n else Fin 365
      | Some (JStr str) \<Rightarrow> if isFinite (S str) \<and> jlt (Fin 0) (S str) then S str else Fin 365
      | Some (JBool b) \<Rightarrow> if b then Fin 1 else Fin 365
      | _ \<Rightarrow> Fin 365)"
proof (intro conjI)
  show "getElapsedDays (run cs (createSimulationFromRow S r))
     = jmul (jdiv (time (run cs (createSimulationFromRow S r))) (Fin (2 * pi)))
            (orbitalPeriodDays (createSimulationFromRow S r))"
    by (simp only: getElapsedDays_def two_pi run_orbitalPeriodDays)
  show "getElapsedYears (run cs (createSimulationFromRow S r))
     = jdiv (getElapsedDays (run cs (createSimulationFromRow S r))) (Fin 365.25)"
    by (simp only: getElapsedYears_def)
  show "orbitalPeriodDays (createSimulationFromRow S r) =
     (case (case r ''pl_orbper'' of
              None \<Rightarrow> r ''PL_ORBPER''
            | Some JUndefined \<Rightarrow> r ''PL_ORBPER''
            | Some JNull \<Rightarrow> r ''PL_ORBPER''
            | Some v \<Rightarrow> Some v) of
        Some (JNum n) \<Rightarrow> if isFinite n \<and> jlt (Fin 0) n then n else Fin 365
      | Some (JStr str) \<Rightarrow> if isFinite (S str) \<and> jlt (Fin 0) (S str) then S str else Fin 365
      | Some (JBool b) \<Rightarrow> if b then Fin 1 else Fin 365
      | _ \<Rightarrow> Fin 365)"
    by (rule period_of_record)
qed

text \<open>
  C6 on records: a period of 365.25 days under either spelling of the key is kept; a
  period of -3, a missing period and the string \<^verbatim>\<open>"N/A"\<close> give 365. After
  \<open>update(Math.PI)\<close>, half an orbit, the state with the period 365.25 reports 182.625 days
  and 0.5 years.
\<close>

theorem C6_elapsed_time_witness:
  "orbitalPeriodDays (createSimulationFromRow (\<lambda>s. NaN) [''pl_orbper'' \<mapsto> JNum (Fin 365.25)])
     = Fin 365.25
   \<and> orbitalPeriodDays (createSimulationFromRow (\<lambda>s. NaN) [''PL_ORBPER'' \<mapsto> JNum (Fin 365.25)])
     = Fin 365.25
   \<and> orbitalPeriodDays (createSimulationFromRow (\<lambda>s. NaN) [''pl_orbper'' \<mapsto> JNum (Fin (- 3))])
     = Fin 365
   \<and> orbitalPeriodDays (createSimulationFromRow (\<lambda>s. NaN) Map.empty) = Fin 365
   \<and> orbitalPeriodDays (createSimulationFromRow (\<lambda>s. NaN) [''pl_orbper'' \<mapsto> JStr ''N/A''])
     = Fin 365
   \<and> getElapsedDays (run [Update (Fin pi)]
        (createSimulationFromRow (\<lambda>s. NaN) [''pl_orbper'' \<mapsto> JNum (Fin 365.25)]))
     = Fin 182.625
   \<and> getElapsedYears (run [Update (Fin pi)]
        (createSimulationFromRow (\<lambda>s. NaN) [''pl_orbper'' \<mapsto> JNum (Fin 365.25)]))
     = Fin 0.5"
proof -
  let ?S = "\<lambda>s::string. NaN"
  let ?r = "[''pl_orbper'' \<mapsto> JNum (Fin 365.25)]"
  have p1: "orbitalPeriodDays (createSimulationFromRow ?S ?r) = Fin 365.25"
    using C6_elapsed_time [of "[]" ?S ?r] by simp
  have p2: "orbitalPeriodDays (createSimulationFromRow ?S [''PL_ORBPER'' \<mapsto> JNum (Fin 365.25)])
      = Fin 365.25"
    using C6_elapsed_time [of "[]" ?S "[''PL_ORBPER'' \<mapsto> JNum (Fin 365.25)]"] by simp
  have p3: "orbitalPeriodDays (createSimulationFromRow ?S [''pl_orbper'' \<mapsto> JNum (Fin (- 3))])
      = Fin 365"
    using C6_elapsed_time [of "[]" ?S "[''pl_orbper'' \<mapsto> JNum (Fin (- 3))]"] by simp
  have p4: "orbitalPeriodDays (createSimulationFromRow ?S Map.empty) = Fin 365"
    using C6_elapsed_time [of "[]" ?S Map.empty] by simp
  have p5: "orbitalPeriodDays (createSimulationFromRow ?S [''pl_orbper'' \<mapsto> JStr ''N/A'']) = Fin 365"
    using C6_elapsed_time [of "[]" ?S "[''pl_orbper'' \<mapsto> JStr ''N/A'']"] by simp
  have bpi: "\<bar>pi\<bar> \<le> MAX_VALUE" using pi_less_4 pi_gt_zero MAX_VALUE_ge by linarith
  have t: "time (run [Update (Fin pi)] (createSimulationFromRow ?S ?r)) = Fin pi"
    by (simp add: update_def create_time overflow_Fin [OF bpi])
  have half: "jdiv (Fin pi) (Fin (2 * pi)) = Fin (1 / 2)"
    by (simp add: fit_moderate)
  note c6 = C6_elapsed_time [of "[Update (Fin pi)]" ?S ?r]
  have e1: "getElapsedDays (run [Update (Fin pi)] (createSimulationFromRow ?S ?r))
      = jmul (jdiv (time (run [Update (Fin pi)] (createSimulationFromRow ?S ?r))) (Fin (2 * pi)))
             (orbitalPeriodDays (createSimulationFromRow ?S ?r))"
    using c6 by (rule conjunct1)
  have e2: "getElapsedYears (run [Update (Fin pi)] (createSimulationFromRow ?S ?r))
      = jdiv (getElapsedDays (run [Update (Fin pi)] (createSimulationFromRow ?S ?r))) (Fin 365.25)"
    using c6 [THEN conjunct2] by (rule conjunct1)
  have d: "getElapsedDays (run [Update (Fin pi)] (createSimulationFromRow ?S ?r)) = Fin 182.625"
    unfolding e1 t p1 half by (simp add: fit_moderate)
  have y: "getElapsedYears (run [Update (Fin pi)] (createSimulationFromRow ?S ?r)) = Fin 0.5"
    unfolding e2 d by (simp add: fit_moderate)
  show ?thesis using p1 p2 p3 p4 p5 d y by (intro conjI)
qed

subsection \<open>The phase accumulator\<close>

text \<open>
  C7, as stated, fails: on a state just constructed, \<open>update(-1)\<close> leaves the phase
  accumulator at \<open>-1\<close>, which is negative.
\<close>

theorem C7_phase_nonneg_counterexample:
  "isFinite (Fin (- 1))
   \<and> time (update (createSimulationFromRow (\<lambda>s. NaN) Map.empty) (Fin (- 1))) = Fin (- 1)
   \<and> \<not> jle (Fin 0) (time (update (createSimulationFromRow (\<lambda>s. NaN) Map.empty) (Fin (- 1))))"
  using MAX_VALUE_ge by (simp add: update_def create_time overflow_def)

text \<open>
  C7, amended: the phase accumulator is 0 at construction. After any sequence of calls
  whose \<open>update\<close> steps are all non-negative it is non-negative. In a state reached by
  calls whose \<open>update\<close> steps are all finite, \<open>update(dt)\<close> with a finite \<open>dt \<ge> 0\<close> does not
  decrease it. No call other than \<open>update\<close> changes it.
\<close>

theorem C7_phase_accumulator:
  "time (createSimulationFromRow S r) = Fin 0
   \<and> ((\<forall>c \<in> set cs. \<forall>d. c = Update d \<longrightarrow> jle (Fin 0) d) \<longrightarrow>
        jle (Fin 0) (time (run cs (createSimulationFromRow S r))))
   \<and> ((\<forall>c \<in> set cs. \<forall>d. c = Update d \<longrightarrow> isFinite d) \<and> 0 \<le> q \<longrightarrow>
        jle (time (run cs (createSimulationFromRow S r)))
            (time (update (run cs (createSimulationFromRow S r)) (Fin q))))
   \<and> ((\<forall>d. c \<noteq> Update d) \<longrightarrow> time (snd (invoke c s)) = time s)"
proof -
  let ?s0 = "createSimulationFromRow S r"
  have t0: "time ?s0 = Fin 0" by (rule create_time)
  have a: "jle (Fin 0) (time (run cs ?s0))"
    if "\<forall>c \<in> set cs. \<forall>d. c = Update d \<longrightarrow> jle (Fin 0) d"
    using time_run_nonneg [OF that, of ?s0] t0 by simp
  have b: "jle (time (run cs ?s0)) (time (update (run cs ?s0) (Fin q)))"
    if h: "\<forall>c \<in> set cs. \<forall>d. c = Update d \<longrightarrow> isFinite d" and q: "0 \<le> q"
  proof -
    have "inRange (time ?s0) \<and> time ?s0 \<noteq> NaN" using t0 MAX_VALUE_ge by simp
    from time_run_finite_steps [OF h this]
    show ?thesis using q by (simp add: update_def jadd_nondecreasing)
  qed
  have c: "time (snd (invoke c s)) = time s" if "\<forall>d. c \<noteq> Update d"
    using that by (cases c) simp_all
  show ?thesis using t0 a b c by blast
qed

text \<open>
  The amended C7 on the state built from the empty record: two non-negative steps with a
  read between them, a further step of 3, and a call that is not an update.
\<close>

theorem C7_phase_accumulator_witness:
  "time (createSimulationFromRow (\<lambda>s. NaN) Map.empty) = Fin 0
   \<and> jle (Fin 0)
        (time (run [Update (Fin 1), GetPlanetPosition, Update (Fin 2)]
           (createSimulationFromRow (\<lambda>s. NaN) Map.empty)))
   \<and> jle (time (run [Update (Fin 1), GetPlanetPosition, Update (Fin 2)]
                 (createSimulationFromRow (\<lambda>s. NaN) Map.empty)))
          (time (update (run [Update (Fin 1), GetPlanetPosition, Update (Fin 2)]
                 (createSimulationFromRow (\<lambda>s. NaN) Map.empty)) (Fin 3)))
   \<and> time (snd (invoke GetElapsedDays (createSimulationFromRow (\<lambda>s. NaN) Map.empty)))
       = time (createSimulationFromRow (\<lambda>s. NaN) Map.empty)"
proof -
  let ?cs = "[Update (Fin 1), GetPlanetPosition, Update (Fin 2)]"
  have h1: "\<forall>c \<in> set ?cs. \<forall>d. c = Update d \<longrightarrow> jle (Fin 0) d" by simp
  have h2: "(\<forall>c \<in> set ?cs. \<forall>d. c = Update d \<longrightarrow> isFinite d) \<and> (0::real) \<le> 3" by simp
  have h3: "\<forall>d. GetElapsedDays \<noteq> Update d" by simp
  show ?thesis
    using C7_phase_accumulator [of "\<lambda>s. NaN" Map.empty ?cs 3 GetElapsedDays
        "createSimulationFromRow (\<lambda>s. NaN) Map.empty"] h1 h2 h3
    by blast
qed

text \<open>
  C8, as stated, fails: addition of numbers overflows. From the state that
  \<open>update(1e308)\<close> leaves, \<open>update(1e308)\<close> followed by \<open>update(-1e308)\<close> leaves the phase at
  \<^verbatim>\<open>Infinity\<close>, while the single call \<open>update(1e308 + -1e308)\<close> leaves it at \<open>1e308\<close>.
\<close>

theorem C8_update_additive_counterexample:
  "time (update (update (update (createSimulationFromRow (\<lambda>s. NaN) Map.empty) (Fin (10 ^ 308)))
                   (Fin (10 ^ 308))) (Fin (- (10 ^ 308)))) = PInf
   \<and> time (update (update (createSimulationFromRow (\<lambda>s. NaN) Map.empty) (Fin (10 ^ 308)))
                   (jadd (Fin (10 ^ 308)) (Fin (- (10 ^ 308))))) = Fin (10 ^ 308)
   \<and> time (update (update (update (createSimulationFromRow (\<lambda>s. NaN) Map.empty) (Fin (10 ^ 308)))
                   (Fin (10 ^ 308))) (Fin (- (10 ^ 308))))
       \<noteq> time (update (update (createSimulationFromRow (\<lambda>s. NaN) Map.empty) (Fin (10 ^ 308)))
                   (jadd (Fin (10 ^ 308)) (Fin (- (10 ^ 308)))))"
proof -
  define B :: real where "B = 10 ^ 308"
  have le: "B \<le> MAX_VALUE" unfolding B_def by (rule pow10_308_in_range)
  have gt: "MAX_VALUE < B + B" unfolding B_def by (rule twice_pow10_308_overflows)
  have pos: "0 \<le> B" unfolding B_def by simp
  have a: "overflow B = Fin B" using le pos by (simp add: overflow_Fin)
  have a0: "overflow (0 + B) = Fin B" using a by simp
  have b: "overflow (B + B) = PInf" using gt by (simp add: overflow_def)
  have c: "overflow (B + - B) = Fin 0" using MAX_VALUE_ge by (simp add: overflow_def)
  have a1: "overflow (B + 0) = Fin B" using a by simp
  have t1: "time (update (createSimulationFromRow (\<lambda>s. NaN) Map.empty) (Fin B)) = Fin B"
    by (simp add: update_def create_time a)
  have l: "jadd (jadd (Fin B) (Fin B)) (Fin (- B)) = PInf"
    by (simp only: jadd.simps b)
  have r: "jadd (Fin B) (jadd (Fin B) (Fin (- B))) = Fin B"
    by (simp only: jadd.simps c a1)
  have "time (update (update (update (createSimulationFromRow (\<lambda>s. NaN) Map.empty) (Fin B))
                   (Fin B)) (Fin (- B))) = PInf
   \<and> time (update (update (createSimulationFromRow (\<lambda>s. NaN) Map.empty) (Fin B))
                   (jadd (Fin B) (Fin (- B)))) = Fin B"
    using l r t1 by (simp add: update_def)
  then have "time (update (update (update (createSimulationFromRow (\<lambda>s. NaN) Map.empty) (Fin B))
                   (Fin B)) (Fin (- B))) = PInf
   \<and> time (update (update (createSimulationFromRow (\<lambda>s. NaN) Map.empty) (Fin B))
                   (jadd (Fin B) (Fin (- B)))) = Fin B
   \<and> time (update (update (update (createSimulationFromRow (\<lambda>s. NaN) Map.empty) (Fin B))
                   (Fin B)) (Fin (- B)))
       \<noteq> time (update (update (createSimulationFromRow (\<lambda>s. NaN) Map.empty) (Fin B))
                   (jadd (Fin B) (Fin (- B))))"
    by (simp only: jsnum.distinct simp_thms)
  then show ?thesis unfolding B_def .
qed

text \<open>
  C8, amended: on a state just constructed, for all numbers \<open>dt1\<close> and \<open>dt2\<close>, the calls
  \<open>update(dt1)\<close> and then \<open>update(dt2)\<close> leave the same state, and so the same phase and the
  same planet position, as the single call \<open>update(dt1 + dt2)\<close>.
\<close>

theorem C8_update_additive_from_construction:
  "inRange dt1 \<and> inRange dt2 \<longrightarrow>
     update (update (createSimulationFromRow S r) dt1) dt2
       = update (createSimulationFromRow S r) (jadd dt1 dt2)
     \<and> time (update (update (createSimulationFromRow S r) dt1) dt2) = jadd dt1 dt2
     \<and> getPlanetPosition (update (update (createSimulationFromRow S r) dt1) dt2)
       = getPlanetPosition (update (createSimulationFromRow S r) (jadd dt1 dt2))"
proof
  assume h: "inRange dt1 \<and> inRange dt2"
  have 1: "jadd (Fin 0) dt1 = dt1" using h by (simp add: jadd_zero_left)
  have 2: "jadd (Fin 0) (jadd dt1 dt2) = jadd dt1 dt2"
    by (rule jadd_zero_left) (rule inRange_jadd)
  have eq: "update (update (createSimulationFromRow S r) dt1) dt2
       = update (createSimulationFromRow S r) (jadd dt1 dt2)"
    by (simp add: update_def create_time 1 2)
  have "time (update (createSimulationFromRow S r) (jadd dt1 dt2)) = jadd dt1 dt2"
    by (simp add: update_def create_time 2)
  with eq show "update (update (createSimulationFromRow S r) dt1) dt2
       = update (createSimulationFromRow S r) (jadd dt1 dt2)
     \<and> time (update (update (createSimulationFromRow S r) dt1) dt2) = jadd dt1 dt2
     \<and> getPlanetPosition (update (update (createSimulationFromRow S r) dt1) dt2)
       = getPlanetPosition (update (createSimulationFromRow S r) (jadd dt1 dt2))"
    by simp
qed

text \<open>The amended C8 at the steps 0.005 and 0.01 on the state built from the empty record.\<close>

theorem C8_update_additive_from_construction_witness:
  "inRange (Fin 0.005) \<and> inRange (Fin 0.01)
   \<and> time (update (update (createSimulationFromRow (\<lambda>s. NaN) Map.empty) (Fin 0.005)) (Fin 0.01))
       = Fin 0.015"
proof -
  have h: "inRange (Fin 0.005) \<and> inRange (Fin 0.01)" using MAX_VALUE_ge by simp
  have s: "jadd (Fin 0.005) (Fin 0.01) = Fin 0.015" using MAX_VALUE_ge by (simp add: overflow_Fin)
  from C8_update_additive_from_construction [of "Fin 0.005" "Fin 0.01" "\<lambda>s. NaN" Map.empty] h
  have "time (update (update (createSimulationFromRow (\<lambda>s. NaN) Map.empty) (Fin 0.005)) (Fin 0.01))
       = jadd (Fin 0.005) (Fin 0.01)"
    by blast
  with h s show ?thesis by (simp only: simp_thms)
qed

subsection \<open>What the calls leave unchanged\<close>

text \<open>
  C9: whatever calls are made on a constructed state, every field of the state other
  than the phase accumulator keeps the value it had at construction, the orbit-point cache
  included; \<open>getOrbitPoints()\<close> returns that cache, which has exactly 65 points, the
  \<open>i\<close>-th being \<open>positionAtTime(i * 2 * pi / 64)\<close> for \<open>i\<close> from 0 to 64.
\<close>

theorem C9_update_changes_only_phase:
  "run cs (createSimulationFromRow S r)
     = (createSimulationFromRow S r)\<lparr>time := time (run cs (createSimulationFromRow S r))\<rparr>
   \<and> update (createSimulationFromRow S r) dt
     = (createSimulationFromRow S r)\<lparr>time := jadd (time (createSimulationFromRow S r)) dt\<rparr>
   \<and> getOrbitPoints (run cs (createSimulationFromRow S r))
     = orbitPointsCache (createSimulationFromRow S r)
   \<and> length (getOrbitPoints (run cs (createSimulationFromRow S r))) = 65
   \<and> (\<forall>i \<le> 64. getOrbitPoints (run cs (createSimulationFromRow S r)) ! i
         = positionAtTime (orbitRadius (createSimulationFromRow S r))
             (orbitEccentricity (createSimulationFromRow S r)) (Fin (real i * (2 * pi) / 64)))"
proof -
  have "run cs (createSimulationFromRow S r)
     = (createSimulationFromRow S r)\<lparr>time := time (run cs (createSimulationFromRow S r))\<rparr>"
    by (rule run_frame)
  moreover have "update (createSimulationFromRow S r) dt
     = (createSimulationFromRow S r)\<lparr>time := jadd (time (createSimulationFromRow S r)) dt\<rparr>"
    by (simp add: update_def)
  moreover have "getOrbitPoints (run cs (createSimulationFromRow S r))
     = orbitPointsCache (createSimulationFromRow S r)"
    by (simp add: getOrbitPoints_def run_orbitPointsCache)
  ultimately show ?thesis
    using create_orbit_points by simp
qed

text \<open>
  C9 on the state built from the empty record, after two updates and a read: the first
  cached point is \<open>(1, 0, 0)\<close>.
\<close>

theorem C9_update_changes_only_phase_witness:
  "length (getOrbitPoints (run [Update (Fin 1), GetOrbitPoints, Update (Fin 2)]
      (createSimulationFromRow (\<lambda>s. NaN) Map.empty))) = 65
   \<and> getOrbitPoints (run [Update (Fin 1), GetOrbitPoints, Update (Fin 2)]
      (createSimulationFromRow (\<lambda>s. NaN) Map.empty)) ! 0 = \<lparr>x = Fin 1, y = Fin 0, z = Fin 0\<rparr>"
proof -
  let ?cs = "[Update (Fin 1), GetOrbitPoints, Update (Fin 2)]"
  let ?s0 = "createSimulationFromRow (\<lambda>s. NaN) Map.empty"
  from C9_update_changes_only_phase [where cs = ?cs and S = "\<lambda>s. NaN" and r = Map.empty]
  have len: "length (getOrbitPoints (run ?cs ?s0)) = 65"
    and nth: "\<forall>i \<le> 64. getOrbitPoints (run ?cs ?s0) ! i
         = positionAtTime (orbitRadius ?s0) (orbitEccentricity ?s0) (Fin (real i * (2 * pi) / 64))"
    by blast+
  from nth have "getOrbitPoints (run ?cs ?s0) ! 0
      = positionAtTime (orbitRadius ?s0) (orbitEccentricity ?s0) (Fin (real (0::nat) * (2 * pi) / 64))"
    by blast
  then have "getOrbitPoints (run ?cs ?s0) ! 0 = \<lparr>x = Fin 1, y = Fin 0, z = Fin 0\<rparr>"
    by (simp add: empty_row_orbit positionAtTime_circle_0)
  with len show ?thesis by blast
qed

end
